theory Spec2Isabelle
  imports Main "HOL-Library.Multiset"
begin

section \<open>The cache cluster of package cache (src/demo/demo.go)\<close>

text \<open>
  The file embeds \<^verbatim>\<open>cacheCluster\<close> and its constructor \<^verbatim>\<open>New\<close>. What the
  package imports and does not define (the consistent hash, the batch error, the
  node constructor, \<^verbatim>\<open>errors.Is\<close>) is either a parameter of the model or a small
  definition that says where it comes from.
\<close>

subsection \<open>Go values\<close>

text \<open>
  \<^verbatim>\<open>context.Context\<close>: the cluster only passes a context on;
  \<^verbatim>\<open>context.Background()\<close> is the one value it creates itself.
\<close>

datatype Context = Background | WithCancel Context | WithTimeout Context int

text \<open>
  Go \<^verbatim>\<open>error\<close> values other than nil; an \<^verbatim>\<open>error\<close> is an \<open>error option\<close> with
  \<open>None\<close> for nil. An error of a pointer type carries its address \<open>a\<close>: Go's
  \<^verbatim>\<open>==\<close> on two such errors compares the pointers, and an address names one
  value, so \<open>=\<close> on the values below is that comparison.
  \<^item> \<open>ErrorString a s\<close>: the result of \<^verbatim>\<open>errors.New(s)\<close>.
  \<^item> \<open>Errorf a f args\<close>: the result of \<^verbatim>\<open>fmt.Errorf(f, args...)\<close> with no \<^verbatim>\<open>%w\<close>,
    kept as format and arguments (the rendering is \<^verbatim>\<open>fmt\<close>'s).
  \<^item> \<open>WrapError a s e\<close>: the result of \<^verbatim>\<open>fmt.Errorf("...: %w", e)\<close>, whose
    \<^verbatim>\<open>Unwrap()\<close> returns \<open>e\<close>.
  \<^item> \<open>Custom a s targets e\<close>: an error of a type of the caller's own, with a method
    \<^verbatim>\<open>Is(target)\<close> that returns true for the errors of \<open>targets\<close> (none for a
    type without the method) and a method \<^verbatim>\<open>Unwrap()\<close> that returns \<open>e\<close> (nil
    for a type without it).
  \<^item> \<open>ErrorArray es\<close>: \<^verbatim>\<open>errorx\<close>'s composite of several errors, a slice with
    neither method.
\<close>

datatype error =
    ErrorString nat string
  | Errorf nat string "string list"
  | WrapError nat string error
  | Custom nat string "error list" "error option"
  | ErrorArray "error list"

text \<open>
  \<^verbatim>\<open>reflect.Type.Comparable\<close> on an error's dynamic type: pointers are comparable,
  a slice is not (\<^verbatim>\<open>==\<close> on two slices panics).
\<close>

fun Comparable :: "error \<Rightarrow> bool" where
  "Comparable (ErrorArray es) = False"
| "Comparable e = True"

text \<open>The methods \<^verbatim>\<open>Unwrap() error\<close> and \<^verbatim>\<open>Is(error) bool\<close>, where an error has them.\<close>

fun Unwrap :: "error \<Rightarrow> error option" where
  "Unwrap (WrapError a s e) = Some e"
| "Unwrap (Custom a s targets e) = e"
| "Unwrap e = None"

fun Is_method :: "error \<Rightarrow> error \<Rightarrow> bool" where
  "Is_method (Custom a s targets e) target = (target \<in> set targets)"
| "Is_method e target = False"

text \<open>
  \<^verbatim>\<open>errors.Is(err, target)\<close> of the standard library. With a nil on either side it
  is \<^verbatim>\<open>err == target\<close>. Otherwise \<open>is\<close> is its loop: the error matches when the
  target's type is comparable and \<^verbatim>\<open>err == target\<close>, or when the error's own
  \<^verbatim>\<open>Is\<close> method accepts the target; if neither, the loop goes on with
  \<^verbatim>\<open>err.Unwrap()\<close> and ends with false when there is none. No error of the
  model has the method \<^verbatim>\<open>Unwrap() []error\<close>, which later versions of the library
  also follow.
\<close>

function "is" :: "error \<Rightarrow> error \<Rightarrow> bool" where
  "is err target =
     (if Comparable target \<and> err = target then True
      else if Is_method err target then True
      else (case Unwrap err of
              None \<Rightarrow> False
            | Some x \<Rightarrow> is x target))"
  by pat_completeness auto
termination
proof (relation "measure (\<lambda>(err, target). size err)")
  show "wf (measure (\<lambda>(err, target). size err))" by simp
next
  fix err target :: error and x
  assume "Unwrap err = Some x"
  then have "size x < size err" by (cases err) auto
  then show "((x, target), (err, target)) \<in> measure (\<lambda>(err, target). size err)" by simp
qed

declare is.simps [simp del]






subsection \<open>The collaborators\<close>

text \<open>
  \<^verbatim>\<open>hash.ConsistentHash\<close>, seen through the one method the cluster calls:
  \<^verbatim>\<open>Get(key)\<close> returns \<^verbatim>\<open>(node, true)\<close> or \<^verbatim>\<open>(nil, false)\<close>. Nodes are handles
  of a type \<open>'n\<close> with equality, as the cluster uses them for map keys.
\<close>

record 'n ConsistentHash =
  Get :: "string \<Rightarrow> 'n option"

text \<open>
  The \<^verbatim>\<open>Cache\<close> interface as the cluster calls it on a node
  (\<^verbatim>\<open>c.(Cache).GetCtx(...)\<close>): the six context methods. A call runs on a world
  \<open>'s\<close> (the stores behind the nodes and whatever \<^verbatim>\<open>val\<close> points to) and returns
  the error with the new world. \<open>'v\<close> is \<^verbatim>\<open>interface{}\<close>, \<open>'q\<close> and \<open>'qe\<close> are the
  two query function types, \<^verbatim>\<open>time.Duration\<close> is an \<open>int\<close> of nanoseconds.
\<close>

record ('v, 'q, 'qe, 's) Cache =
  DelCtx :: "Context \<Rightarrow> string list \<Rightarrow> 's \<Rightarrow> error option \<times> 's"
  GetCtx :: "Context \<Rightarrow> string \<Rightarrow> 'v \<Rightarrow> 's \<Rightarrow> error option \<times> 's"
  SetCtx :: "Context \<Rightarrow> string \<Rightarrow> 'v \<Rightarrow> 's \<Rightarrow> error option \<times> 's"
  SetWithExpireCtx :: "Context \<Rightarrow> string \<Rightarrow> 'v \<Rightarrow> int \<Rightarrow> 's \<Rightarrow> error option \<times> 's"
  TakeCtx :: "Context \<Rightarrow> 'v \<Rightarrow> string \<Rightarrow> 'q \<Rightarrow> 's \<Rightarrow> error option \<times> 's"
  TakeWithExpireCtx :: "Context \<Rightarrow> 'v \<Rightarrow> string \<Rightarrow> 'qe \<Rightarrow> 's \<Rightarrow> error option \<times> 's"

text \<open>
  Modelled from the spec: \<^verbatim>\<open>errorx.BatchError\<close> is imported, not defined under
  src. It is the "composite of zero or more" errors that is nil when empty:
  \<^verbatim>\<open>Add\<close> appends an error and ignores nil, \<^verbatim>\<open>Err\<close> returns nil for no error, the
  error itself for one, and the array of them otherwise.
\<close>

type_synonym BatchError = "error list"

definition Add :: "BatchError \<Rightarrow> error option \<Rightarrow> BatchError" where
  "Add be err = (case err of None \<Rightarrow> be | Some e \<Rightarrow> be @ [e])"

definition Err :: "BatchError \<Rightarrow> error option" where
  "Err be = (case be of [] \<Rightarrow> None | [e] \<Rightarrow> Some e | _ \<Rightarrow> Some (ErrorArray be))"

subsection \<open>cacheCluster\<close>

record 'n cacheCluster =
  dispatcher :: "'n ConsistentHash"
  errNotFound :: "error option"

text \<open>
  The map \<^verbatim>\<open>nodes\<close> of \<^verbatim>\<open>DelCtx\<close>, from node to keys, as an association list
  with one entry for a node; \<open>nodes_append nodes c key\<close> is
  \<^verbatim>\<open>nodes[c] = append(nodes[c], key)\<close>.
\<close>

fun nodes_append :: "('n \<times> string list) list \<Rightarrow> 'n \<Rightarrow> string \<Rightarrow> ('n \<times> string list) list" where
  "nodes_append [] c key = [(c, [key])]"
| "nodes_append ((c', ks) # nodes) c key =
     (if c' = c then (c', ks @ [key]) # nodes else (c', ks) # nodes_append nodes c key)"

text \<open>
  The first loop of the default case: route every key, or record that it has no node.
  \<^verbatim>\<open>fmt.Errorf\<close> returns a new pointer at every call: \<open>fresh i\<close> is the address of
  the error that the call of \<^verbatim>\<open>DelCtx\<close> allocates after \<open>i\<close> others, and in this
  loop the errors allocated so far are those of \<open>be\<close>.
\<close>

fun DelCtx_route ::
  "(nat \<Rightarrow> nat) \<Rightarrow> 'n ConsistentHash \<Rightarrow> string list \<Rightarrow> BatchError \<Rightarrow> ('n \<times> string list) list
     \<Rightarrow> BatchError \<times> ('n \<times> string list) list" where
  "DelCtx_route fresh d [] be nodes = (be, nodes)"
| "DelCtx_route fresh d (key # keys) be nodes =
     (case Get d key of
        None \<Rightarrow>
          DelCtx_route fresh d keys
            (Add be (Some (Errorf (fresh (length be)) ''key %q not found'' [key]))) nodes
      | Some c \<Rightarrow> DelCtx_route fresh d keys be (nodes_append nodes c key))"

text \<open>The second loop: one \<^verbatim>\<open>DelCtx\<close> on each node of the map, with its keys.\<close>

fun DelCtx_nodes ::
  "('n \<Rightarrow> ('v, 'q, 'qe, 's) Cache) \<Rightarrow> Context \<Rightarrow> ('n \<times> string list) list \<Rightarrow> BatchError \<Rightarrow> 's
     \<Rightarrow> BatchError \<times> 's" where
  "DelCtx_nodes N ctx [] be s = (be, s)"
| "DelCtx_nodes N ctx ((c, ks) # nodes) be s =
     (case DelCtx (N c) ctx ks s of
        (None, s') \<Rightarrow> DelCtx_nodes N ctx nodes be s'
      | (Some err, s') \<Rightarrow> DelCtx_nodes N ctx nodes (Add be (Some err)) s')"

text \<open>
  \<^verbatim>\<open>cacheCluster.DelCtx\<close>. \<open>N\<close> gives each node handle its \<^verbatim>\<open>Cache\<close>. Go ranges
  over a map in an order of its own choosing: \<open>rng\<close> is that order, a function that
  lists the entries of the map. \<open>fresh\<close> gives the addresses of the errors the call
  allocates.
\<close>

definition cacheCluster_DelCtx ::
  "('n \<Rightarrow> ('v, 'q, 'qe, 's) Cache) \<Rightarrow> (('n \<times> string list) list \<Rightarrow> ('n \<times> string list) list)
     \<Rightarrow> (nat \<Rightarrow> nat) \<Rightarrow> 'n cacheCluster \<Rightarrow> Context \<Rightarrow> string list \<Rightarrow> 's
     \<Rightarrow> error option \<times> 's" where
  "cacheCluster_DelCtx N rng fresh cc ctx keys s =
     (case keys of
        [] \<Rightarrow> (None, s)
      | [key] \<Rightarrow>
          (case Get (dispatcher cc) key of
             None \<Rightarrow> (errNotFound cc, s)
           | Some c \<Rightarrow> DelCtx (N c) ctx [key] s)
      | _ \<Rightarrow>
          (case DelCtx_route fresh (dispatcher cc) keys [] [] of
             (be, nodes) \<Rightarrow>
               (case DelCtx_nodes N ctx (rng nodes) be s of
                  (be', s') \<Rightarrow> (Err be', s'))))"

definition cacheCluster_Del ::
  "('n \<Rightarrow> ('v, 'q, 'qe, 's) Cache) \<Rightarrow> (('n \<times> string list) list \<Rightarrow> ('n \<times> string list) list)
     \<Rightarrow> (nat \<Rightarrow> nat) \<Rightarrow> 'n cacheCluster \<Rightarrow> string list \<Rightarrow> 's \<Rightarrow> error option \<times> 's" where
  "cacheCluster_Del N rng fresh cc keys s = cacheCluster_DelCtx N rng fresh cc Background keys s"

definition cacheCluster_GetCtx ::
  "('n \<Rightarrow> ('v, 'q, 'qe, 's) Cache) \<Rightarrow> 'n cacheCluster \<Rightarrow> Context \<Rightarrow> string \<Rightarrow> 'v \<Rightarrow> 's
     \<Rightarrow> error option \<times> 's" where
  "cacheCluster_GetCtx N cc ctx key val s =
     (case Get (dispatcher cc) key of
        None \<Rightarrow> (errNotFound cc, s)
      | Some c \<Rightarrow> GetCtx (N c) ctx key val s)"

definition cacheCluster_Get ::
  "('n \<Rightarrow> ('v, 'q, 'qe, 's) Cache) \<Rightarrow> 'n cacheCluster \<Rightarrow> string \<Rightarrow> 'v \<Rightarrow> 's
     \<Rightarrow> error option \<times> 's" where
  "cacheCluster_Get N cc key val s = cacheCluster_GetCtx N cc Background key val s"


definition cacheCluster_SetCtx ::
  "('n \<Rightarrow> ('v, 'q, 'qe, 's) Cache) \<Rightarrow> 'n cacheCluster \<Rightarrow> Context \<Rightarrow> string \<Rightarrow> 'v \<Rightarrow> 's
     \<Rightarrow> error option \<times> 's" where
  "cacheCluster_SetCtx N cc ctx key val s =
     (case Get (dispatcher cc) key of
        None \<Rightarrow> (errNotFound cc, s)
      | Some c \<Rightarrow> SetCtx (N c) ctx key val s)"

definition cacheCluster_Set ::
  "('n \<Rightarrow> ('v, 'q, 'qe, 's) Cache) \<Rightarrow> 'n cacheCluster \<Rightarrow> string \<Rightarrow> 'v \<Rightarrow> 's
     \<Rightarrow> error option \<times> 's" where
  "cacheCluster_Set N cc key val s = cacheCluster_SetCtx N cc Background key val s"

definition cacheCluster_SetWithExpireCtx ::
  "('n \<Rightarrow> ('v, 'q, 'qe, 's) Cache) \<Rightarrow> 'n cacheCluster \<Rightarrow> Context \<Rightarrow> string \<Rightarrow> 'v \<Rightarrow> int \<Rightarrow> 's
     \<Rightarrow> error option \<times> 's" where
  "cacheCluster_SetWithExpireCtx N cc ctx key val expire s =
     (case Get (dispatcher cc) key of
        None \<Rightarrow> (errNotFound cc, s)
      | Some c \<Rightarrow> SetWithExpireCtx (N c) ctx key val expire s)"

definition cacheCluster_SetWithExpire ::
  "('n \<Rightarrow> ('v, 'q, 'qe, 's) Cache) \<Rightarrow> 'n cacheCluster \<Rightarrow> string \<Rightarrow> 'v \<Rightarrow> int \<Rightarrow> 's
     \<Rightarrow> error option \<times> 's" where
  "cacheCluster_SetWithExpire N cc key val expire s =
     cacheCluster_SetWithExpireCtx N cc Background key val expire s"

definition cacheCluster_TakeCtx ::
  "('n \<Rightarrow> ('v, 'q, 'qe, 's) Cache) \<Rightarrow> 'n cacheCluster \<Rightarrow> Context \<Rightarrow> 'v \<Rightarrow> string \<Rightarrow> 'q \<Rightarrow> 's
     \<Rightarrow> error option \<times> 's" where
  "cacheCluster_TakeCtx N cc ctx val key query s =
     (case Get (dispatcher cc) key of
        None \<Rightarrow> (errNotFound cc, s)
      | Some c \<Rightarrow> TakeCtx (N c) ctx val key query s)"

definition cacheCluster_Take ::
  "('n \<Rightarrow> ('v, 'q, 'qe, 's) Cache) \<Rightarrow> 'n cacheCluster \<Rightarrow> 'v \<Rightarrow> string \<Rightarrow> 'q \<Rightarrow> 's
     \<Rightarrow> error option \<times> 's" where
  "cacheCluster_Take N cc val key query s = cacheCluster_TakeCtx N cc Background val key query s"

definition cacheCluster_TakeWithExpireCtx ::
  "('n \<Rightarrow> ('v, 'q, 'qe, 's) Cache) \<Rightarrow> 'n cacheCluster \<Rightarrow> Context \<Rightarrow> 'v \<Rightarrow> string \<Rightarrow> 'qe \<Rightarrow> 's
     \<Rightarrow> error option \<times> 's" where
  "cacheCluster_TakeWithExpireCtx N cc ctx val key query s =
     (case Get (dispatcher cc) key of
        None \<Rightarrow> (errNotFound cc, s)
      | Some c \<Rightarrow> TakeWithExpireCtx (N c) ctx val key query s)"

definition cacheCluster_TakeWithExpire ::
  "('n \<Rightarrow> ('v, 'q, 'qe, 's) Cache) \<Rightarrow> 'n cacheCluster \<Rightarrow> 'v \<Rightarrow> string \<Rightarrow> 'qe \<Rightarrow> 's
     \<Rightarrow> error option \<times> 's" where
  "cacheCluster_TakeWithExpire N cc val key query s =
     cacheCluster_TakeWithExpireCtx N cc Background val key query s"

subsection \<open>New\<close>

text \<open>
  \<^verbatim>\<open>NodeConf\<close> and \<^verbatim>\<open>ClusterConf\<close> (a slice of \<^verbatim>\<open>NodeConf\<close>) are declared outside
  src; \<^verbatim>\<open>New\<close> reads the weight of a node and hands the rest to \<^verbatim>\<open>NewRedis\<close>.
\<close>

record 'rc NodeConf =
  RedisConf :: 'rc
  Weight :: int

text \<open>
  What \<^verbatim>\<open>New\<close> calls and src does not define is a parameter: \<^verbatim>\<open>TotalWeights\<close>,
  \<^verbatim>\<open>node.NewRedis()\<close>, \<^verbatim>\<open>NewNode\<close>, \<^verbatim>\<open>hash.NewConsistentHash\<close> and the hash's
  \<^verbatim>\<open>AddWithWeight\<close> (which returns the hash it has changed).
\<close>

record ('rc, 'r, 'b, 'st, 'o, 'n) package =
  TotalWeights :: "'rc NodeConf list \<Rightarrow> int"
  NewRedis :: "'rc NodeConf \<Rightarrow> 'r"
  NewNode :: "'r \<Rightarrow> 'b \<Rightarrow> 'st \<Rightarrow> error option \<Rightarrow> 'o list \<Rightarrow> 'n"
  NewConsistentHash :: "'n ConsistentHash"
  AddWithWeight :: "'n ConsistentHash \<Rightarrow> 'n \<Rightarrow> int \<Rightarrow> 'n ConsistentHash"

text \<open>
  \<^verbatim>\<open>New\<close> returns a \<^verbatim>\<open>Cache\<close>: a node or a cluster. \<^verbatim>\<open>log.Fatal\<close> prints its
  message and ends the process with \<^verbatim>\<open>os.Exit(1)\<close>, so \<^verbatim>\<open>New\<close> does not return:
  that is the \<open>Inl\<close> result.
\<close>

datatype 'n cache = Node 'n | Cluster "'n cacheCluster"

datatype exit = Fatal string

definition New ::
  "('rc, 'r, 'b, 'st, 'o, 'n) package \<Rightarrow> 'rc NodeConf list \<Rightarrow> 'b \<Rightarrow> 'st \<Rightarrow> error option \<Rightarrow> 'o list
     \<Rightarrow> exit + 'n cache" where
  "New P c barrier st notFound opts =
     (if length c = 0 \<or> TotalWeights P c \<le> 0 then Inl (Fatal ''no cache nodes'')
      else if length c = 1 then
        Inr (Node (NewNode P (NewRedis P (c ! 0)) barrier st notFound opts))
      else
        Inr (Cluster \<lparr>
          dispatcher =
            foldl (\<lambda>dispatcher node.
                AddWithWeight P dispatcher
                  (NewNode P (NewRedis P node) barrier st notFound opts) (Weight node))
              (NewConsistentHash P) c,
          errNotFound = notFound \<rparr>))"

subsection \<open>Observing the calls a cluster makes\<close>

text \<open>
  \<open>logged N\<close> is \<open>N\<close> with a log beside the world: a \<^verbatim>\<open>DelCtx\<close> on node \<open>c\<close> with
  keys \<open>ks\<close> does what \<open>N c\<close> does and appends \<open>(c, ks, err)\<close>, the error being the
  one the node returned. The log of a run is the list of batch deletes the cluster
  delegated, in order.
\<close>

type_synonym 'n call = "'n \<times> string list \<times> error option"



text \<open>The errors of a log, and the keys of its failed batches.\<close>

fun errors_of :: "'n call list \<Rightarrow> error list" where
  "errors_of [] = []"
| "errors_of ((c, ks, None) # log) = errors_of log"
| "errors_of ((c, ks, Some err) # log) = err # errors_of log"





subsection \<open>A small cluster to run the model on\<close>

text \<open>
  Nodes are numbers and the world is the list of (node, key) pairs stored. Node
  \<open>bad\<close> is unreachable: its deletes fail with \<open>ex_err\<close>. The hash \<open>ex_ring\<close> sends
  a key to node 0 or 1 by the parity of its length; \<open>ex_empty_ring\<close> has no node.
\<close>

definition ex_notfound :: error where
  "ex_notfound = ErrorString 1 ''not found''"

definition ex_err :: error where
  "ex_err = ErrorString 7 ''connection refused''"

definition ex_node :: "nat \<Rightarrow> nat \<Rightarrow> (string, unit, unit, (nat \<times> string) list) Cache" where
  "ex_node bad c = \<lparr>
     DelCtx = (\<lambda>ctx ks s.
       if c = bad then (Some ex_err, s)
       else (None, filter (\<lambda>(n, k). n \<noteq> c \<or> k \<notin> set ks) s)),
     GetCtx = (\<lambda>ctx key val s. (if (c, key) \<in> set s then None else Some ex_notfound, s)),
     SetCtx = (\<lambda>ctx key val s. (None, (c, key) # s)),
     SetWithExpireCtx = (\<lambda>ctx key val expire s. (None, (c, key) # s)),
     TakeCtx = (\<lambda>ctx val key query s. (None, (c, key) # s)),
     TakeWithExpireCtx = (\<lambda>ctx val key query s. (None, (c, key) # s)) \<rparr>"

definition ex_fresh :: "nat \<Rightarrow> nat" where
  "ex_fresh i = 100 + i"

definition ex_ring :: "nat ConsistentHash" where
  "ex_ring = \<lparr> Get = (\<lambda>key. Some (length key mod 2)) \<rparr>"

definition ex_empty_ring :: "nat ConsistentHash" where
  "ex_empty_ring = \<lparr> Get = (\<lambda>key. None) \<rparr>"

definition ex_cc :: "nat cacheCluster" where
  "ex_cc = \<lparr> dispatcher = ex_ring, errNotFound = Some ex_notfound \<rparr>"

definition ex_cc_empty :: "nat cacheCluster" where
  "ex_cc_empty = \<lparr> dispatcher = ex_empty_ring, errNotFound = Some ex_notfound \<rparr>"

text \<open>
  Modelled from the spec: \<^verbatim>\<open>TotalWeights\<close> is called by \<^verbatim>\<open>New\<close> and not defined
  under src; it is the spec's "total weight across all registered nodes".
\<close>

definition sum_weights :: "'rc NodeConf list \<Rightarrow> int" where
  "sum_weights c = sum_list (map Weight c)"

text \<open>
  A package for the examples: the node of a configuration is its number, and adding
  node \<open>n\<close> with a positive weight gives it the keys whose length has the parity of \<open>n\<close>.
\<close>

definition ex_package :: "(nat, nat, unit, unit, unit, nat) package" where
  "ex_package = \<lparr>
     TotalWeights = sum_weights,
     NewRedis = RedisConf,
     NewNode = (\<lambda>r barrier st notFound opts. r),
     NewConsistentHash = ex_empty_ring,
     AddWithWeight = (\<lambda>d n w.
       \<lparr> Get = (\<lambda>key. if 0 < w \<and> length key mod 2 = n mod 2 then Some n else Get d key) \<rparr>) \<rparr>"

section \<open>Properties\<close>

subsection \<open>Single-key operations\<close>

text \<open>
  C1. A single-key operation of the cluster (\<^verbatim>\<open>Get\<close>, \<^verbatim>\<open>Set\<close>, \<^verbatim>\<open>SetWithExpire\<close>,
  \<^verbatim>\<open>Take\<close>, \<^verbatim>\<open>TakeWithExpire\<close> and their \<^verbatim>\<open>Ctx\<close> variants) on a key for which the
  hash finds no node returns the cluster's \<^verbatim>\<open>errNotFound\<close> and leaves the world as
  it was, whatever the nodes are: no node is called. On a key with a node it is the
  node's operation with the same arguments (a method without a context passes
  \<^verbatim>\<open>context.Background()\<close>).
\<close>

theorem single_key_routing:
  "(Get (dispatcher cc) key = None \<longrightarrow>
      cacheCluster_GetCtx N cc ctx key val s = (errNotFound cc, s) \<and>
      cacheCluster_Get N cc key val s = (errNotFound cc, s) \<and>
      cacheCluster_SetCtx N cc ctx key val s = (errNotFound cc, s) \<and>
      cacheCluster_Set N cc key val s = (errNotFound cc, s) \<and>
      cacheCluster_SetWithExpireCtx N cc ctx key val expire s = (errNotFound cc, s) \<and>
      cacheCluster_SetWithExpire N cc key val expire s = (errNotFound cc, s) \<and>
      cacheCluster_TakeCtx N cc ctx val key query s = (errNotFound cc, s) \<and>
      cacheCluster_Take N cc val key query s = (errNotFound cc, s) \<and>
      cacheCluster_TakeWithExpireCtx N cc ctx val key queryE s = (errNotFound cc, s) \<and>
      cacheCluster_TakeWithExpire N cc val key queryE s = (errNotFound cc, s))
   \<and> (\<forall>c. Get (dispatcher cc) key = Some c \<longrightarrow>
      cacheCluster_GetCtx N cc ctx key val s = GetCtx (N c) ctx key val s \<and>
      cacheCluster_Get N cc key val s = GetCtx (N c) Background key val s \<and>
      cacheCluster_SetCtx N cc ctx key val s = SetCtx (N c) ctx key val s \<and>
      cacheCluster_Set N cc key val s = SetCtx (N c) Background key val s \<and>
      cacheCluster_SetWithExpireCtx N cc ctx key val expire s =
        SetWithExpireCtx (N c) ctx key val expire s \<and>
      cacheCluster_SetWithExpire N cc key val expire s =
        SetWithExpireCtx (N c) Background key val expire s \<and>
      cacheCluster_TakeCtx N cc ctx val key query s = TakeCtx (N c) ctx val key query s \<and>
      cacheCluster_Take N cc val key query s = TakeCtx (N c) Background val key query s \<and>
      cacheCluster_TakeWithExpireCtx N cc ctx val key queryE s =
        TakeWithExpireCtx (N c) ctx val key queryE s \<and>
      cacheCluster_TakeWithExpire N cc val key queryE s =
        TakeWithExpireCtx (N c) Background val key queryE s)"
  by (simp add: cacheCluster_GetCtx_def cacheCluster_Get_def cacheCluster_SetCtx_def
      cacheCluster_Set_def cacheCluster_SetWithExpireCtx_def cacheCluster_SetWithExpire_def
      cacheCluster_TakeCtx_def cacheCluster_Take_def cacheCluster_TakeWithExpireCtx_def
      cacheCluster_TakeWithExpire_def)

theorem single_key_routing_witness:
  "cacheCluster_GetCtx (ex_node 0) ex_cc_empty (WithCancel Background) ''a'' ''v'' [(1, ''a'')]
     = (Some ex_notfound, [(1, ''a'')])
   \<and> cacheCluster_Set (ex_node 0) ex_cc_empty ''a'' ''v'' [] = (Some ex_notfound, [])
   \<and> cacheCluster_GetCtx (ex_node 0) ex_cc (WithCancel Background) ''a'' ''v'' [(1, ''a'')]
     = (None, [(1, ''a'')])
   \<and> cacheCluster_Set (ex_node 0) ex_cc ''a'' ''v'' [] = (None, [(1, ''a'')])
   \<and> cacheCluster_Take (ex_node 0) ex_cc ''v'' ''bb'' () [] = (None, [(0, ''bb'')])"
  using single_key_routing [of ex_cc_empty "''a''" "ex_node 0" "WithCancel Background" "''v''"
      "[(1, ''a'')]" 0 "()" "()"]
    single_key_routing [of ex_cc_empty "''a''" "ex_node 0" Background "''v''" "[]" 0 "()" "()"]
    single_key_routing [of ex_cc "''a''" "ex_node 0" "WithCancel Background" "''v''"
      "[(1, ''a'')]" 0 "()" "()"]
    single_key_routing [of ex_cc "''a''" "ex_node 0" Background "''v''" "[]" 0 "()" "()"]
    single_key_routing [of ex_cc "''bb''" "ex_node 0" Background "''v''" "[]" 0 "()" "()"]
  by (simp add: ex_cc_def ex_cc_empty_def ex_ring_def ex_empty_ring_def ex_node_def)

text \<open>
  C10. A method of the cluster without a context (\<^verbatim>\<open>Del\<close>, \<^verbatim>\<open>Get\<close>, \<^verbatim>\<open>Set\<close>,
  \<^verbatim>\<open>SetWithExpire\<close>, \<^verbatim>\<open>Take\<close>, \<^verbatim>\<open>TakeWithExpire\<close>) returns what its \<^verbatim>\<open>Ctx\<close>
  counterpart returns on \<^verbatim>\<open>context.Background()\<close> and the same arguments.
\<close>

theorem background_variants:
  "cacheCluster_Del N rng fresh cc keys s = cacheCluster_DelCtx N rng fresh cc Background keys s \<and>
   cacheCluster_Get N cc key val s = cacheCluster_GetCtx N cc Background key val s \<and>
   cacheCluster_Set N cc key val s = cacheCluster_SetCtx N cc Background key val s \<and>
   cacheCluster_SetWithExpire N cc key val expire s =
     cacheCluster_SetWithExpireCtx N cc Background key val expire s \<and>
   cacheCluster_Take N cc val key query s = cacheCluster_TakeCtx N cc Background val key query s \<and>
   cacheCluster_TakeWithExpire N cc val key queryE s =
     cacheCluster_TakeWithExpireCtx N cc Background val key queryE s"
  by (simp add: cacheCluster_Del_def cacheCluster_Get_def cacheCluster_Set_def
      cacheCluster_SetWithExpire_def cacheCluster_Take_def cacheCluster_TakeWithExpire_def)

text \<open>
  C6. \<^verbatim>\<open>Del\<close> and \<^verbatim>\<open>DelCtx\<close> with no key return nil and leave the world as it
  was. With one key they work as a single-key operation: \<^verbatim>\<open>errNotFound\<close> and no
  call when the hash finds no node, and otherwise the \<^verbatim>\<open>DelCtx\<close> of the node that
  owns the key, with that key.
\<close>

theorem Del_zero_or_one_key:
  "cacheCluster_DelCtx N rng fresh cc ctx [] s = (None, s) \<and>
   cacheCluster_Del N rng fresh cc [] s = (None, s) \<and>
   (Get (dispatcher cc) key = None \<longrightarrow>
      cacheCluster_DelCtx N rng fresh cc ctx [key] s = (errNotFound cc, s) \<and>
      cacheCluster_Del N rng fresh cc [key] s = (errNotFound cc, s)) \<and>
   (\<forall>c. Get (dispatcher cc) key = Some c \<longrightarrow>
      cacheCluster_DelCtx N rng fresh cc ctx [key] s = DelCtx (N c) ctx [key] s \<and>
      cacheCluster_Del N rng fresh cc [key] s = DelCtx (N c) Background [key] s)"
  by (simp add: cacheCluster_DelCtx_def cacheCluster_Del_def)

theorem Del_zero_or_one_key_witness:
  "cacheCluster_Del (ex_node 0) rev ex_fresh ex_cc [] [(1, ''a'')] = (None, [(1, ''a'')]) \<and>
   cacheCluster_DelCtx (ex_node 0) rev ex_fresh ex_cc_empty (WithCancel Background) [''a''] [(1, ''a'')]
     = (Some ex_notfound, [(1, ''a'')]) \<and>
   cacheCluster_DelCtx (ex_node 0) rev ex_fresh ex_cc (WithCancel Background) [''a''] [(1, ''a''), (0, ''bb'')]
     = (None, [(0, ''bb'')]) \<and>
   cacheCluster_Del (ex_node 0) rev ex_fresh ex_cc [''bb''] [(1, ''a''), (0, ''bb'')]
     = (Some ex_err, [(1, ''a''), (0, ''bb'')])"
  using Del_zero_or_one_key [where N = "ex_node 0" and rng = rev and fresh = ex_fresh
      and cc = ex_cc and ctx = Background and s = "[(1, ''a'')]" and key = "''a''"]
    Del_zero_or_one_key [where N = "ex_node 0" and rng = rev and fresh = ex_fresh
      and cc = ex_cc_empty and ctx = "WithCancel Background" and s = "[(1, ''a'')]"
      and key = "''a''"]
    Del_zero_or_one_key [where N = "ex_node 0" and rng = rev and fresh = ex_fresh
      and cc = ex_cc and ctx = "WithCancel Background" and s = "[(1, ''a''), (0, ''bb'')]"
      and key = "''a''"]
    Del_zero_or_one_key [where N = "ex_node 0" and rng = rev and fresh = ex_fresh
      and cc = ex_cc and ctx = Background and s = "[(1, ''a''), (0, ''bb'')]"
      and key = "''bb''"]
  by (simp add: ex_cc_def ex_cc_empty_def ex_ring_def ex_empty_ring_def ex_node_def)

subsection \<open>Del with several keys\<close>









lemma errors_of_append: "errors_of (log @ log') = errors_of log @ errors_of log'"
  by (induction log rule: errors_of.induct) simp_all
























subsection \<open>IsNotFound\<close>









subsection \<open>Construction\<close>

text \<open>
  C4. With an empty node list, or a total weight that is not positive, \<^verbatim>\<open>New\<close>
  ends in \<^verbatim>\<open>log.Fatal\<close>: it returns no cache, before any operation can run.
\<close>

theorem New_fatal:
  "c = [] \<or> TotalWeights P c \<le> 0 \<Longrightarrow>
     New P c barrier st notFound opts = Inl (Fatal ''no cache nodes'') \<and>
     (\<forall>cache. New P c barrier st notFound opts \<noteq> Inr cache)"
  by (auto simp: New_def)

theorem New_fatal_witness:
  "New ex_package [] () () (Some ex_notfound) [] = Inl (Fatal ''no cache nodes'') \<and>
   New ex_package [\<lparr>RedisConf = 0, Weight = 0\<rparr>, \<lparr>RedisConf = 1, Weight = 0\<rparr>] () ()
     (Some ex_notfound) [] = Inl (Fatal ''no cache nodes'')"
  using New_fatal [of "[]" ex_package "()" "()" "Some ex_notfound" "[]"]
    New_fatal [of "[\<lparr>RedisConf = 0, Weight = 0\<rparr>, \<lparr>RedisConf = 1, Weight = 0\<rparr>]" ex_package
      "()" "()" "Some ex_notfound" "[]"]
  by (simp add: ex_package_def sum_weights_def)

text \<open>
  C9, as the claim states it, fails when the one node of the configuration has
  weight 0: the check of the total weight comes first and \<^verbatim>\<open>New\<close> ends in
  \<^verbatim>\<open>log.Fatal\<close>.
\<close>

theorem New_single_node_counterexample:
  "length [\<lparr>RedisConf = 0::nat, Weight = 0\<rparr>] = 1 \<and>
   New ex_package [\<lparr>RedisConf = 0, Weight = 0\<rparr>] () () (Some ex_notfound) []
     = Inl (Fatal ''no cache nodes'')"
  by (simp add: New_def ex_package_def sum_weights_def)

text \<open>
  C9, amended. With exactly one node in the configuration and a positive total
  weight, \<^verbatim>\<open>New\<close> returns the node that \<^verbatim>\<open>NewNode\<close> builds for it, not a cluster;
  the result does not depend on the hash functions of the package, so no ring is
  built and none is consulted afterwards.
\<close>

theorem New_single_node:
  "length c = 1 \<Longrightarrow> 0 < TotalWeights P c \<Longrightarrow>
     New P c barrier st notFound opts
       = Inr (Node (NewNode P (NewRedis P (hd c)) barrier st notFound opts)) \<and>
     New (P\<lparr>NewConsistentHash := h, AddWithWeight := a\<rparr>) c barrier st notFound opts
       = New P c barrier st notFound opts"
  by (cases c) (auto simp: New_def)

theorem New_single_node_witness:
  "New ex_package [\<lparr>RedisConf = 5, Weight = 100\<rparr>] () () (Some ex_notfound) [] = Inr (Node 5)"
  using New_single_node [where c = "[\<lparr>RedisConf = 5, Weight = 100\<rparr>]" and P = ex_package
      and barrier = "()" and st = "()" and notFound = "Some ex_notfound" and opts = "[]"
      and h = ex_ring and a = "\<lambda>d n w. d"]
  by (simp add: ex_package_def sum_weights_def)

end
